theory Spec2Isabelle
  imports Main "HOL-Library.Word" "HOL-Library.Char_ord" "HOL-Library.List_Lexorder"
begin

unbundle bit_operations_syntax

section \<open>Python values\<close>

text \<open>
  The values that flow through \<open>python-integration.py\<close> are what \<open>json.loads\<close> produces:
  \<open>None\<close>, booleans, integers, strings, lists and dictionaries with string keys.
  A Python \<open>str\<close> is modelled as a \<open>string\<close> whose characters are the code points
  0..255; floats are not modelled. A dictionary is an association list in insertion
  order; Python keeps its keys unique.
\<close>

datatype json =
    JNull
  | JBool bool
  | JInt int
  | JStr string
  | JList "json list"
  | JDict "(string \<times> json) list"

type_synonym dict = "(string \<times> json) list"

datatype error = RuntimeError string | TypeError string

text \<open>\<open>d.get(k)\<close> is \<open>map_of d k\<close>; \<open>d.get(k, default)\<close>:\<close>

definition dict_get :: "dict \<Rightarrow> string \<Rightarrow> json \<Rightarrow> json" where
  "dict_get d k dflt = (case map_of d k of None \<Rightarrow> dflt | Some v \<Rightarrow> v)"

text \<open>\<open>d[k] = v\<close>: an existing key keeps its position, a new key goes last.\<close>

fun dict_set :: "dict \<Rightarrow> string \<Rightarrow> json \<Rightarrow> dict" where
  "dict_set [] k v = [(k, v)]"
| "dict_set ((k', v') # d) k v = (if k' = k then (k, v) # d else (k', v') # dict_set d k v)"

text \<open>
  Python's \<open>==\<close> on these values: \<open>True == 1\<close> and \<open>False == 0\<close>, lists are compared
  element by element and dictionaries as mappings, whatever the insertion order.
  \<open>py_norm\<close> maps equal values to one representative.
\<close>

fun py_norm :: "json \<Rightarrow> json" where
  "py_norm JNull = JNull"
| "py_norm (JBool b) = JInt (if b then 1 else 0)"
| "py_norm (JInt i) = JInt i"
| "py_norm (JStr s) = JStr s"
| "py_norm (JList xs) = JList (map py_norm xs)"
| "py_norm (JDict kvs) = JDict (sort_key fst (map (\<lambda>(k, v). (k, py_norm v)) kvs))"

definition py_eq :: "json \<Rightarrow> json \<Rightarrow> bool" where
  "py_eq a b = (py_norm a = py_norm b)"

text \<open>
  \<open>set(x)\<close>: the elements of a list, the characters of a string, the keys of a
  dictionary; it raises TypeError on a value that is not iterable and on an element
  that is not hashable (a list or a dictionary).
\<close>

fun hashable :: "json \<Rightarrow> bool" where
  "hashable (JList xs) = False"
| "hashable (JDict kvs) = False"
| "hashable v = True"

fun py_set :: "json \<Rightarrow> error + json set" where
  "py_set (JList xs) =
     (if list_all hashable xs then Inr (set (map py_norm xs))
      else Inl (TypeError ''unhashable type''))"
| "py_set (JStr s) = Inr (set (map (\<lambda>c. JStr [c]) s))"
| "py_set (JDict kvs) = Inr (set (map (\<lambda>kv. JStr (fst kv)) kvs))"
| "py_set v = Inl (TypeError ''object is not iterable'')"

section \<open>\<open>json.dumps\<close>\<close>

definition hexdigit :: "nat \<Rightarrow> char" where
  "hexdigit n = ''0123456789abcdef'' ! (n mod 16)"

fun str_nat :: "nat \<Rightarrow> string" where
  "str_nat n = (if n < 10 then [hexdigit n] else str_nat (n div 10) @ [hexdigit (n mod 10)])"

declare str_nat.simps [simp del]

text \<open>\<open>str(i)\<close> for an integer.\<close>

definition str_int :: "int \<Rightarrow> string" where
  "str_int i = (if i < 0 then ''-'' @ str_nat (nat (- i)) else str_nat (nat i))"

text \<open>
  The string encoder of \<open>json.dumps\<close> with \<open>ensure_ascii=True\<close> (the default): quote and
  backslash are escaped, the five short escapes are used, and every other character
  outside \<open>' '..'~'\<close> becomes \<open>\uXXXX\<close>.
\<close>

definition escape_char :: "char \<Rightarrow> string" where
  "escape_char c =
     (let n = of_char c :: nat in
      if n = 0x22 then [CHR 0x5C, CHR 0x22]
      else if n = 0x5C then [CHR 0x5C, CHR 0x5C]
      else if n = 0x0A then [CHR 0x5C, CHR ''n'']
      else if n = 0x0D then [CHR 0x5C, CHR ''r'']
      else if n = 0x09 then [CHR 0x5C, CHR ''t'']
      else if n = 0x08 then [CHR 0x5C, CHR ''b'']
      else if n = 0x0C then [CHR 0x5C, CHR ''f'']
      else if 0x20 \<le> n \<and> n \<le> 0x7E then [c]
      else [CHR 0x5C, CHR ''u'', CHR ''0'', CHR ''0'', hexdigit (n div 16), hexdigit n])"

definition dumps_str :: "string \<Rightarrow> string" where
  "dumps_str s = [CHR 0x22] @ concat (map escape_char s) @ [CHR 0x22]"

text \<open>\<open>sep.join(xs)\<close>\<close>

fun join :: "string \<Rightarrow> string list \<Rightarrow> string" where
  "join sep [] = []"
| "join sep [x] = x"
| "join sep (x # y # ys) = x @ sep @ join sep (y # ys)"

text \<open>
  \<open>json.dumps(v, sort_keys=sk)\<close> with the default separators \<open>', '\<close> and \<open>': '\<close>.
  With \<open>sort_keys\<close> the items of every dictionary, nested ones too, are written in the
  order of their keys (the order of Python strings, code point by code point).
\<close>

function dumps :: "bool \<Rightarrow> json \<Rightarrow> string" where
  "dumps sk JNull = ''null''"
| "dumps sk (JBool b) = (if b then ''true'' else ''false'')"
| "dumps sk (JInt i) = str_int i"
| "dumps sk (JStr s) = dumps_str s"
| "dumps sk (JList xs) = ''['' @ join '', '' (map (dumps sk) xs) @ '']''"
| "dumps sk (JDict kvs) =
     ''{'' @ join '', '' (map (\<lambda>(k, v). dumps_str k @ '': '' @ dumps sk v)
                            (if sk then sort_key fst kvs else kvs)) @ ''}''"
  by pat_completeness auto

termination
proof (relation "measure (\<lambda>(sk, v). size v)")
  have item: "size v < Suc (size_list (size_prod (\<lambda>x. 0) size) kvs)"
    if "(k, v) \<in> set kvs" for k :: string and v :: json and kvs
    using that by (induction kvs) auto
  fix sk :: bool and kvs :: dict and x :: "string \<times> json" and k v
  assume "x \<in> set (if sk then sort_key fst kvs else kvs)" and "(k, v) = x"
  then have "(k, v) \<in> set kvs"
    by (simp split: if_splits)
  from item [OF this] show "((sk, v), (sk, JDict kvs)) \<in> measure (\<lambda>(sk, v). size v)"
    by simp
next
  fix sk :: bool and xs :: "json list" and x
  assume "x \<in> set xs"
  then have "size x < Suc (size_list size xs)"
    by (induction xs) auto
  then show "((sk, x), (sk, JList xs)) \<in> measure (\<lambda>(sk, v). size v)"
    by simp
qed simp

section \<open>\<open>hashlib.sha256\<close>\<close>

type_synonym u32 = "32 word"

type_synonym sha_state = "u32 \<times> u32 \<times> u32 \<times> u32 \<times> u32 \<times> u32 \<times> u32 \<times> u32"

definition rotr :: "nat \<Rightarrow> u32 \<Rightarrow> u32" where
  "rotr n x = (drop_bit n x) OR (push_bit (32 - n) x)"

definition Ch :: "u32 \<Rightarrow> u32 \<Rightarrow> u32 \<Rightarrow> u32" where
  "Ch x y z = (x AND y) XOR (NOT x AND z)"

definition Maj :: "u32 \<Rightarrow> u32 \<Rightarrow> u32 \<Rightarrow> u32" where
  "Maj x y z = (x AND y) XOR (x AND z) XOR (y AND z)"

definition bsig0 :: "u32 \<Rightarrow> u32" where
  "bsig0 x = rotr 2 x XOR rotr 13 x XOR rotr 22 x"

definition bsig1 :: "u32 \<Rightarrow> u32" where
  "bsig1 x = rotr 6 x XOR rotr 11 x XOR rotr 25 x"

definition ssig0 :: "u32 \<Rightarrow> u32" where
  "ssig0 x = rotr 7 x XOR rotr 18 x XOR drop_bit 3 x"

definition ssig1 :: "u32 \<Rightarrow> u32" where
  "ssig1 x = rotr 17 x XOR rotr 19 x XOR drop_bit 10 x"

text \<open>
  The 64 round constants (the first 32 bits of the fractional parts of the cube roots
  of the first 64 primes), in decimal; the first is \<open>0x428a2f98\<close>, the last
  \<open>0xc67178f2\<close>.
\<close>

definition K256 :: "u32 list" where
  "K256 = [
   1116352408, 1899447441, 3049323471, 3921009573, 961987163, 1508970993,
   2453635748, 2870763221, 3624381080, 310598401, 607225278, 1426881987,
   1925078388, 2162078206, 2614888103, 3248222580, 3835390401, 4022224774,
   264347078, 604807628, 770255983, 1249150122, 1555081692, 1996064986,
   2554220882, 2821834349, 2952996808, 3210313671, 3336571891, 3584528711,
   113926993, 338241895, 666307205, 773529912, 1294757372, 1396182291,
   1695183700, 1986661051, 2177026350, 2456956037, 2730485921, 2820302411,
   3259730800, 3345764771, 3516065817, 3600352804, 4094571909, 275423344,
   430227734, 506948616, 659060556, 883997877, 958139571, 1322822218,
   1537002063, 1747873779, 1955562222, 2024104815, 2227730452, 2361852424,
   2428436474, 2756734187, 3204031479, 3329325298]"

definition H256 :: "sha_state" where
  "H256 = (0x6a09e667, 0xbb67ae85, 0x3c6ef372, 0xa54ff53a,
           0x510e527f, 0x9b05688c, 0x1f83d9ab, 0x5be0cd19)"

text \<open>The message schedule; the list holds the words computed so far, newest first.\<close>

fun schedule :: "nat \<Rightarrow> u32 list \<Rightarrow> u32 list" where
  "schedule 0 ws = ws"
| "schedule (Suc n) ws =
     schedule n ((ssig1 (ws ! 1) + ws ! 6 + ssig0 (ws ! 14) + ws ! 15) # ws)"

definition round1 :: "u32 \<Rightarrow> u32 \<Rightarrow> sha_state \<Rightarrow> sha_state" where
  "round1 k w st = (case st of (a, b, c, d, e, f, g, h) \<Rightarrow>
     (let t1 = h + bsig1 e + Ch e f g + k + w;
          t2 = bsig0 a + Maj a b c
      in (t1 + t2, a, b, c, d + t1, e, f, g)))"

fun rounds :: "(u32 \<times> u32) list \<Rightarrow> sha_state \<Rightarrow> sha_state" where
  "rounds [] st = st"
| "rounds ((k, w) # kws) st = rounds kws (round1 k w st)"

definition add_state :: "sha_state \<Rightarrow> sha_state \<Rightarrow> sha_state" where
  "add_state s t = (case s of (a, b, c, d, e, f, g, h) \<Rightarrow>
     case t of (a', b', c', d', e', f', g', h') \<Rightarrow>
       (a + a', b + b', c + c', d + d', e + e', f + f', g + g', h + h'))"

definition compress :: "sha_state \<Rightarrow> u32 list \<Rightarrow> sha_state" where
  "compress st block = add_state st (rounds (zip K256 (rev (schedule 48 (rev block)))) st)"

fun be32 :: "8 word list \<Rightarrow> u32 list" where
  "be32 (a # b # c # d # bs) =
     (push_bit 24 (ucast a) OR push_bit 16 (ucast b) OR push_bit 8 (ucast c) OR ucast d) # be32 bs"
| "be32 bs = []"

definition pad :: "8 word list \<Rightarrow> 8 word list" where
  "pad m = (let l = length m;
                z = (119 - l mod 64) mod 64;
                n = (of_nat (8 * l) :: 64 word)
            in m @ [0x80] @ replicate z 0 @ map (\<lambda>i. ucast (drop_bit (8 * (7 - i)) n)) [0..<8])"

fun blocks :: "nat \<Rightarrow> sha_state \<Rightarrow> u32 list \<Rightarrow> sha_state" where
  "blocks 0 st ws = st"
| "blocks (Suc n) st ws = blocks n (compress st (take 16 ws)) (drop 16 ws)"

definition sha256 :: "8 word list \<Rightarrow> sha_state" where
  "sha256 m = (let ws = be32 (pad m) in blocks (length ws div 16) H256 ws)"

definition hex32 :: "u32 \<Rightarrow> string" where
  "hex32 w = map (\<lambda>i. hexdigit (unat (drop_bit (4 * (7 - i)) w AND 15))) [0..<8]"

text \<open>\<open>hashlib.sha256(bs).hexdigest()\<close>\<close>

definition hexdigest :: "8 word list \<Rightarrow> string" where
  "hexdigest bs = (case sha256 bs of (a, b, c, d, e, f, g, h) \<Rightarrow>
     concat (map hex32 [a, b, c, d, e, f, g, h]))"

text \<open>\<open>s.encode()\<close>: UTF-8 of the code points 0..255.\<close>

definition encode_char :: "char \<Rightarrow> 8 word list" where
  "encode_char c =
     (let n = of_char c :: nat in
      if n < 128 then [of_nat n] else [of_nat (192 + n div 64), of_nat (128 + n mod 64)])"

definition encode :: "string \<Rightarrow> 8 word list" where
  "encode s = concat (map encode_char s)"

section \<open>\<open>BidirectionalSync.compute_sync_hash\<close>\<close>

definition compute_sync_hash :: "dict \<Rightarrow> string" where
  "compute_sync_hash data =
     (let json_str = dumps True (JDict data)
      in take 16 (hexdigest (encode json_str)))"

section \<open>The task store behind the \<open>stm\<close> command line\<close>

text \<open>
  \<open>STMIntegration.run_stm_command\<close> shells out to the \<open>stm\<close> executable, which is not part
  of the source file. The store keeps, for every task id as written on the command
  line, the task as \<open>stm show --json\<close> prints it, and the list of the commands run.
\<close>

record stm =
  tasks :: "string \<Rightarrow> dict option"
  calls :: "string list list"

text \<open>
  Modelled from the spec: the \<open>stm\<close> executable (\<open>stm show <id> --json\<close>), missing from the
  source; the spec names it the external collaborator that holds the task and its
  persisted SyncState. The output is given as the value \<open>json.loads\<close> makes of it. A
  missing task makes the command exit with an error, which \<open>run_stm_command\<close> turns into
  RuntimeError.
\<close>

definition stm_show :: "string \<Rightarrow> stm \<Rightarrow> (error + dict) \<times> stm" where
  "stm_show tid s =
     (let s' = s\<lparr>calls := calls s @ [[''show'', tid, ''--json'']]\<rparr>
      in case tasks s tid of
           None \<Rightarrow> (Inl (RuntimeError ''STM command failed''), s')
         | Some t \<Rightarrow> (Inr t, s'))"

text \<open>An argument \<open>name=value\<close> is split at its first \<open>=\<close>.\<close>

definition parse_assignment :: "string \<Rightarrow> string \<times> string" where
  "parse_assignment a =
     (takeWhile (\<lambda>c. c \<noteq> CHR ''='') a, drop 1 (dropWhile (\<lambda>c. c \<noteq> CHR ''='') a))"

fun assign_fields :: "dict \<Rightarrow> string list \<Rightarrow> dict" where
  "assign_fields t [] = t"
| "assign_fields t (a # as) =
     (case parse_assignment a of (k, v) \<Rightarrow> assign_fields (dict_set t k (JStr v)) as)"

text \<open>
  Modelled from the spec: the \<open>stm\<close> executable (\<open>stm update <id> name=value ...\<close>), missing
  from the source; it stores every value, a string, under its field name in the task.
\<close>

definition stm_update :: "string \<Rightarrow> string list \<Rightarrow> stm \<Rightarrow> (error + unit) \<times> stm" where
  "stm_update tid assignments s =
     (let s' = s\<lparr>calls := calls s @ [[''update'', tid] @ assignments]\<rparr>
      in case tasks s tid of
           None \<Rightarrow> (Inl (RuntimeError ''STM command failed''), s')
         | Some t \<Rightarrow> (Inr (), s'\<lparr>tasks := (tasks s)(tid \<mapsto> assign_fields t assignments)\<rparr>))"

section \<open>\<open>STMIntegration\<close>\<close>

definition get_task :: "int \<Rightarrow> stm \<Rightarrow> (error + dict) \<times> stm" where
  "get_task task_id s = stm_show (str_int task_id) s"

text \<open>
  The text \<open>update_task_fields\<close> writes for a value: \<open>json.dumps\<close> for a dictionary or a
  list, \<open>str(value).lower()\<close> for a boolean, \<open>str(value)\<close> otherwise.
\<close>

fun field_value :: "json \<Rightarrow> string" where
  "field_value (JDict kvs) = dumps False (JDict kvs)"
| "field_value (JList xs) = dumps False (JList xs)"
| "field_value (JBool b) = (if b then ''true'' else ''false'')"
| "field_value (JStr s) = s"
| "field_value (JInt i) = str_int i"
| "field_value JNull = ''None''"

definition update_task_fields :: "string \<Rightarrow> int \<Rightarrow> dict \<Rightarrow> stm \<Rightarrow> (error + unit) \<times> stm" where
  "update_task_fields field_prefix task_id flds s =
     stm_update (str_int task_id)
       (map (\<lambda>(key, v). (field_prefix @ ''_'' @ key) @ ''='' @ field_value v) flds) s"

text \<open>
  \<open>get_integration_fields\<close>: the fields whose name starts with the prefix, the prefix
  taken off; a string that starts with a brace or a bracket is replaced by what
  \<open>json.loads\<close> makes of it, when it parses. \<open>json.loads\<close> is the parameter \<open>loads\<close>
  (\<open>None\<close> is JSONDecodeError).
\<close>

definition startswith :: "string \<Rightarrow> string \<Rightarrow> bool" where
  "startswith s p = (take (length p) s = p)"

definition decode_value :: "(string \<Rightarrow> json option) \<Rightarrow> json \<Rightarrow> json" where
  "decode_value loads v =
     (case v of
        JStr s \<Rightarrow>
          (if startswith s ''{'' \<or> startswith s ''[''
           then (case loads s of Some v' \<Rightarrow> v' | None \<Rightarrow> v)
           else v)
      | _ \<Rightarrow> v)"

fun integration_fields_loop ::
  "string \<Rightarrow> (string \<Rightarrow> json option) \<Rightarrow> dict \<Rightarrow> dict \<Rightarrow> dict" where
  "integration_fields_loop prefix loads [] flds = flds"
| "integration_fields_loop prefix loads ((key, v) # items) flds =
     (if startswith key prefix
      then integration_fields_loop prefix loads items
             (dict_set flds (drop (length prefix) key) (decode_value loads v))
      else integration_fields_loop prefix loads items flds)"

definition get_integration_fields ::
  "string \<Rightarrow> (string \<Rightarrow> json option) \<Rightarrow> dict \<Rightarrow> dict" where
  "get_integration_fields field_prefix loads task =
     integration_fields_loop (field_prefix @ ''_'') loads task []"

section \<open>\<open>BidirectionalSync.sync_task_bidirectional\<close>\<close>

record sync_result =
  stm_updated :: bool
  external_updated :: bool
  conflicts :: "string list"

text \<open>The snapshots that are hashed, and the stored hashes.\<close>

definition stm_data :: "dict \<Rightarrow> dict" where
  "stm_data stm_task =
     [(''title'', dict_get stm_task ''title'' JNull),
      (''status'', dict_get stm_task ''status'' JNull),
      (''tags'', dict_get stm_task ''tags'' (JList []))]"

definition external_data :: "dict \<Rightarrow> dict" where
  "external_data external_system_data =
     [(''title'', dict_get external_system_data ''title'' JNull),
      (''status'', dict_get external_system_data ''status'' JNull),
      (''labels'', dict_get external_system_data ''labels'' (JList []))]"

definition last_stm_hash :: "(string \<Rightarrow> json option) \<Rightarrow> dict \<Rightarrow> json" where
  "last_stm_hash loads stm_task =
     dict_get (get_integration_fields ''sync'' loads stm_task) ''last_stm_hash'' (JStr [])"

definition last_external_hash :: "(string \<Rightarrow> json option) \<Rightarrow> dict \<Rightarrow> json" where
  "last_external_hash loads stm_task =
     dict_get (get_integration_fields ''sync'' loads stm_task) ''last_external_hash'' (JStr [])"

definition stm_changed :: "(string \<Rightarrow> json option) \<Rightarrow> dict \<Rightarrow> bool" where
  "stm_changed loads stm_task =
     (\<not> py_eq (JStr (compute_sync_hash (stm_data stm_task))) (last_stm_hash loads stm_task))"

definition external_changed :: "(string \<Rightarrow> json option) \<Rightarrow> dict \<Rightarrow> dict \<Rightarrow> bool" where
  "external_changed loads stm_task external_system_data =
     (\<not> py_eq (JStr (compute_sync_hash (external_data external_system_data)))
              (last_external_hash loads stm_task))"

text \<open>
  The three comparisons of the branch that takes the external side over; \<open>set\<close> is
  applied to the labels first, then to the tags.
\<close>

definition field_conflicts :: "dict \<Rightarrow> dict \<Rightarrow> error + string list" where
  "field_conflicts ext_data st_data =
     (let c1 = (if \<not> py_eq (dict_get ext_data ''title'' JNull) (dict_get st_data ''title'' JNull)
                then [''Title update requires manual intervention''] else []);
          c2 = (if \<not> py_eq (dict_get ext_data ''status'' JNull) (dict_get st_data ''status'' JNull)
                then [''Status update requires manual intervention''] else [])
      in case py_set (dict_get ext_data ''labels'' JNull) of
           Inl e \<Rightarrow> Inl e
         | Inr labels \<Rightarrow>
             (case py_set (dict_get st_data ''tags'' JNull) of
                Inl e \<Rightarrow> Inl e
              | Inr tags \<Rightarrow>
                  Inr (c1 @ c2 @ (if labels \<noteq> tags
                                  then [''Tags update requires manual intervention''] else []))))"

text \<open>
  \<open>now\<close> is the text of \<open>datetime.now(timezone.utc).isoformat()\<close> at the call. The
  result is the returned dictionary, or the exception that leaves the function, and
  the store after the call.
\<close>

definition sync_task_bidirectional ::
  "(string \<Rightarrow> json option) \<Rightarrow> string \<Rightarrow> int \<Rightarrow> dict \<Rightarrow> stm \<Rightarrow> (error + sync_result) \<times> stm" where
  "sync_task_bidirectional loads now task_id external_system_data s =
     (case get_task task_id s of
        (Inl e, s1) \<Rightarrow> (Inl e, s1)
      | (Inr stm_task, s1) \<Rightarrow>
          (let current_stm_hash = compute_sync_hash (stm_data stm_task);
               current_external_hash = compute_sync_hash (external_data external_system_data);
               result = \<lparr>stm_updated = False, external_updated = False, conflicts = []\<rparr>;
               st_changed = stm_changed loads stm_task;
               ext_changed = external_changed loads stm_task external_system_data
           in if st_changed \<and> ext_changed then
                (Inr (result\<lparr>conflicts := [''Both STM and external system have changes'']\<rparr>), s1)
              else if ext_changed \<and> \<not> st_changed then
                (case field_conflicts (external_data external_system_data) (stm_data stm_task) of
                   Inl e \<Rightarrow> (Inl e, s1)
                 | Inr cs \<Rightarrow>
                     (case update_task_fields ''sync'' task_id
                             [(''last_external_hash'', JStr current_external_hash),
                              (''last_external_sync'', JStr now),
                              (''external_data'', JDict external_system_data)] s1 of
                        (Inl e, s2) \<Rightarrow> (Inl e, s2)
                      | (Inr u, s2) \<Rightarrow> (Inr (result\<lparr>conflicts := cs, stm_updated := True\<rparr>), s2)))
              else if st_changed \<and> \<not> ext_changed then
                (case update_task_fields ''sync'' task_id
                        [(''last_stm_hash'', JStr current_stm_hash),
                         (''last_external_sync'', JStr now)] s1 of
                   (Inl e, s2) \<Rightarrow> (Inl e, s2)
                 | (Inr u, s2) \<Rightarrow> (Inr (result\<lparr>external_updated := True\<rparr>), s2))
              else (Inr result, s1)))"

section \<open>\<open>ProjectManagementSystem.add_sync_event\<close>\<close>

text \<open>\<open>xs[-n:]\<close> for a positive \<open>n\<close>: the last \<open>n\<close> elements, all of a shorter list.\<close>

definition last_n :: "nat \<Rightarrow> 'a list \<Rightarrow> 'a list" where
  "last_n n xs = drop (length xs - n) xs"

text \<open>
  The history the call writes back, from the fields \<open>get_integration_fields\<close> returned:
  a string is parsed, and replaced by the empty list when it does not parse; \<open>append\<close>
  raises AttributeError on a value that is not a list.
\<close>

datatype event_error = AttributeError | StmError error

definition read_history :: "(string \<Rightarrow> json option) \<Rightarrow> dict \<Rightarrow> json" where
  "read_history loads flds =
     (let history = dict_get flds ''sync_history'' (JList [])
      in case history of
           JStr s \<Rightarrow> (case loads s of Some v \<Rightarrow> v | None \<Rightarrow> JList [])
         | _ \<Rightarrow> history)"

definition appended_history ::
  "(string \<Rightarrow> json option) \<Rightarrow> dict \<Rightarrow> dict \<Rightarrow> event_error + json list" where
  "appended_history loads flds event =
     (case read_history loads flds of
        JList es \<Rightarrow>
          (let history = es @ [JDict event]
           in Inr (if length history > 100 then last_n 100 history else history))
      | _ \<Rightarrow> Inl AttributeError)"

definition add_sync_event ::
  "(string \<Rightarrow> json option) \<Rightarrow> int \<Rightarrow> dict \<Rightarrow> stm \<Rightarrow> (event_error + unit) \<times> stm" where
  "add_sync_event loads task_id event s =
     (case get_task task_id s of
        (Inl e, s1) \<Rightarrow> (Inl (StmError e), s1)
      | (Inr task, s1) \<Rightarrow>
          (case appended_history loads (get_integration_fields ''pms'' loads task) event of
             Inl e \<Rightarrow> (Inl e, s1)
           | Inr history \<Rightarrow>
               (case update_task_fields ''pms'' task_id [(''sync_history'', JList history)] s1 of
                  (Inl e, s2) \<Rightarrow> (Inl (StmError e), s2)
                | (Inr u, s2) \<Rightarrow> (Inr (), s2))))"

section \<open>Example data\<close>

text \<open>
  A task whose stored hashes are those of its own snapshot and of \<open>example_external\<close>;
  the same external task with its labels in the other order; the task with an older
  stored external hash; the task with no stored hash, and with the STM hash
  only; an external task with another title and one label; a task whose sync history
  holds 100 events, and a new event; a store holding one task under the id 1; a
  parser that rejects every text.
\<close>

definition example_task :: dict where
  "example_task =
     [(''id'', JInt 1), (''title'', JStr ''T''), (''status'', JStr ''done''),
      (''tags'', JList [JStr ''a'', JStr ''b'']),
      (''sync_last_stm_hash'', JStr ''5fe8f75c119ae319''),
      (''sync_last_external_hash'', JStr ''c9be01beafa92c54'')]"

definition example_external :: dict where
  "example_external =
     [(''id'', JStr ''EXT-1''), (''title'', JStr ''T''), (''status'', JStr ''done''),
      (''labels'', JList [JStr ''a'', JStr ''b''])]"

definition example_reordered :: dict where
  "example_reordered =
     [(''id'', JStr ''EXT-1''), (''title'', JStr ''T''), (''status'', JStr ''done''),
      (''labels'', JList [JStr ''b'', JStr ''a''])]"

definition example_stale_external :: dict where
  "example_stale_external =
     [(''id'', JInt 1), (''title'', JStr ''T''), (''status'', JStr ''done''),
      (''tags'', JList [JStr ''a'', JStr ''b'']),
      (''sync_last_stm_hash'', JStr ''5fe8f75c119ae319''),
      (''sync_last_external_hash'', JStr ''00806db582c9669e'')]"

definition example_stale_stm :: dict where
  "example_stale_stm =
     [(''id'', JInt 1), (''title'', JStr ''T''), (''status'', JStr ''done''),
      (''tags'', JList [JStr ''a'', JStr ''b'']),
      (''sync_last_stm_hash'', JStr ''0f0e0d0c0b0a0908''),
      (''sync_last_external_hash'', JStr ''c9be01beafa92c54'')]"

definition example_stale_both :: dict where
  "example_stale_both =
     [(''id'', JInt 1), (''title'', JStr ''T''), (''status'', JStr ''done''),
      (''tags'', JList [JStr ''a'', JStr ''b'']),
      (''sync_last_stm_hash'', JStr ''0f0e0d0c0b0a0908''),
      (''sync_last_external_hash'', JStr ''00806db582c9669e'')]"

definition example_unsynced :: dict where
  "example_unsynced =
     [(''id'', JInt 1), (''title'', JStr ''T''), (''status'', JStr ''done''),
      (''tags'', JList [JStr ''a'', JStr ''b''])]"

definition example_half_synced :: dict where
  "example_half_synced =
     [(''id'', JInt 1), (''title'', JStr ''T''), (''status'', JStr ''done''),
      (''tags'', JList [JStr ''a'', JStr ''b'']),
      (''sync_last_stm_hash'', JStr ''5fe8f75c119ae319'')]"

definition example_renamed :: dict where
  "example_renamed =
     [(''id'', JStr ''EXT-1''), (''title'', JStr ''U''), (''status'', JStr ''done''),
      (''labels'', JList [JStr ''a''])]"

definition example_event :: dict where
  "example_event = [(''action'', JStr ''sync''), (''status'', JStr ''success'')]"

definition example_full_history :: dict where
  "example_full_history =
     [(''id'', JInt 1), (''title'', JStr ''T''), (''status'', JStr ''done''),
      (''pms_sync_history'', JList (replicate 100 (JDict [(''action'', JStr ''assigned'')])))]"

definition example_store :: "dict \<Rightarrow> stm" where
  "example_store t = \<lparr>tasks = Map.empty(''1'' \<mapsto> t), calls = []\<rparr>"

definition no_loads :: "string \<Rightarrow> json option" where
  "no_loads s = None"

definition example_now :: string where
  "example_now = ''2025-01-19T15:00:00+00:00''"

section \<open>Auxiliary facts\<close>

lemma py_norm_JStr_iff: "py_norm x = JStr h \<longleftrightarrow> x = JStr h"
  by (cases x) auto

lemma py_eq_JStr: "py_eq (JStr h) x \<longleftrightarrow> x = JStr h"
  unfolding py_eq_def using py_norm_JStr_iff [of x h] by auto

lemma stm_changed_iff:
  "stm_changed loads t \<longleftrightarrow> last_stm_hash loads t \<noteq> JStr (compute_sync_hash (stm_data t))"
  by (simp add: stm_changed_def py_eq_JStr)

lemma external_changed_iff:
  "external_changed loads t ext \<longleftrightarrow>
     last_external_hash loads t \<noteq> JStr (compute_sync_hash (external_data ext))"
  by (simp add: external_changed_def py_eq_JStr)

lemma length_hex32: "length (hex32 w) = 8"
  by (simp add: hex32_def)

lemma length_hexdigest: "length (hexdigest bs) = 64"
  by (simp add: hexdigest_def length_hex32 split: prod.splits)

lemma length_compute_sync_hash: "length (compute_sync_hash d) = 16"
  by (simp add: compute_sync_hash_def length_hexdigest)

lemma get_task_found:
  "tasks s (str_int task_id) = Some t \<Longrightarrow>
   get_task task_id s = (Inr t, s\<lparr>calls := calls s @ [[''show'', str_int task_id, ''--json'']]\<rparr>)"
  by (simp add: get_task_def stm_show_def)

lemma update_task_fields_found:
  "tasks s (str_int task_id) = Some t \<Longrightarrow>
   update_task_fields p task_id flds s =
     (Inr (),
      s\<lparr>calls := calls s @
            [[''update'', str_int task_id] @
             map (\<lambda>(key, v). (p @ ''_'' @ key) @ ''='' @ field_value v) flds],
        tasks := (tasks s)(str_int task_id \<mapsto>
            assign_fields t (map (\<lambda>(key, v). (p @ ''_'' @ key) @ ''='' @ field_value v) flds))\<rparr>)"
  by (simp add: update_task_fields_def stm_update_def)

lemma sort_key_fst_unique:
  assumes "distinct (map fst a)" and "distinct (map fst b)" and "set a = set b"
  shows "sort_key fst a = sort_key fst b"
proof (rule map_sorted_distinct_set_unique [where f = fst])
  have "inj_on fst (set a)"
    using assms(1) by (simp add: distinct_map)
  then show "inj_on fst (set (sort_key fst a) \<union> set (sort_key fst b))"
    using assms(3) by simp
  show "sorted (map fst (sort_key fst a))" and "sorted (map fst (sort_key fst b))"
    by (rule sorted_sort_key)+
  show "distinct (map fst (sort_key fst a))"
    using assms(1) by (simp add: distinct_map)
  show "distinct (map fst (sort_key fst b))"
    using assms(2) by (simp add: distinct_map)
  show "set (sort_key fst a) = set (sort_key fst b)"
    using assms(3) by simp
qed

lemma map_of_dict_set: "map_of (dict_set d k v) k' = (if k' = k then Some v else map_of d k')"
  by (induction d) auto

lemma startswith_drop: "startswith key p \<and> drop (length p) key = f \<longleftrightarrow> key = p @ f"
proof
  assume "startswith key p \<and> drop (length p) key = f"
  then have "take (length p) key @ drop (length p) key = p @ f"
    by (simp add: startswith_def)
  then show "key = p @ f" by simp
next
  assume "key = p @ f"
  then show "startswith key p \<and> drop (length p) key = f"
    by (simp add: startswith_def)
qed

lemma loop_absent:
  "p @ f \<notin> fst ` set items \<Longrightarrow>
   map_of (integration_fields_loop p loads items acc) f = map_of acc f"
proof (induction items arbitrary: acc)
  case Nil
  then show ?case by simp
next
  case (Cons kv items)
  obtain key v where kv: "kv = (key, v)" by (cases kv)
  from Cons.prems kv have ne: "key \<noteq> p @ f" and rest: "p @ f \<notin> fst ` set items"
    by auto
  show ?case
  proof (cases "startswith key p")
    case True
    with ne have "drop (length p) key \<noteq> f"
      using startswith_drop [of key p f] by blast
    with True kv Cons.IH [OF rest] show ?thesis
      by (simp add: map_of_dict_set)
  next
    case False
    with kv Cons.IH [OF rest] show ?thesis by simp
  qed
qed

lemma last_stm_hash_absent:
  assumes "map_of t ''sync_last_stm_hash'' = None"
  shows "last_stm_hash loads t = JStr []"
proof -
  have "''sync_'' @ ''last_stm_hash'' \<notin> fst ` set t"
    using assms by (simp add: map_of_eq_None_iff)
  then have "map_of (integration_fields_loop ''sync_'' loads t []) ''last_stm_hash'' = map_of [] ''last_stm_hash''"
    by (rule loop_absent)
  then show ?thesis
    by (simp add: last_stm_hash_def get_integration_fields_def dict_get_def)
qed

lemma last_external_hash_absent:
  assumes "map_of t ''sync_last_external_hash'' = None"
  shows "last_external_hash loads t = JStr []"
proof -
  have "''sync_'' @ ''last_external_hash'' \<notin> fst ` set t"
    using assms by (simp add: map_of_eq_None_iff)
  then have "map_of (integration_fields_loop ''sync_'' loads t []) ''last_external_hash'' = map_of [] ''last_external_hash''"
    by (rule loop_absent)
  then show ?thesis
    by (simp add: last_external_hash_def get_integration_fields_def dict_get_def)
qed

lemma compute_sync_hash_nonempty: "compute_sync_hash d \<noteq> []"
  using length_compute_sync_hash [of d] by auto

text \<open>What the loop returns for a field depends on the accumulator at that field only.\<close>

lemma loop_acc_cong:
  "map_of acc f = map_of acc' f \<Longrightarrow>
   map_of (integration_fields_loop p loads items acc) f =
   map_of (integration_fields_loop p loads items acc') f"
proof (induction items arbitrary: acc acc')
  case Nil
  then show ?case by simp
next
  case (Cons kv items)
  obtain key v where kv: "kv = (key, v)" by (cases kv)
  show ?case
  proof (cases "startswith key p")
    case True
    have "map_of (dict_set acc (drop (length p) key) (decode_value loads v)) f =
          map_of (dict_set acc' (drop (length p) key) (decode_value loads v)) f"
      using Cons.prems by (simp add: map_of_dict_set)
    from Cons.IH [OF this] True kv show ?thesis by simp
  next
    case False
    with kv Cons.IH [OF Cons.prems] show ?thesis by simp
  qed
qed

text \<open>Writing another field of the task does not change what the loop returns for a field.\<close>

lemma loop_dict_set_other:
  "k \<noteq> p @ f \<Longrightarrow>
   map_of (integration_fields_loop p loads (dict_set t k v) acc) f =
   map_of (integration_fields_loop p loads t acc) f"
proof (induction t arbitrary: acc)
  case Nil
  show ?case
  proof (cases "startswith k p")
    case True
    with Nil have "drop (length p) k \<noteq> f"
      using startswith_drop [of k p f] by blast
    with True show ?thesis by (simp add: map_of_dict_set)
  next
    case False
    then show ?thesis by simp
  qed
next
  case (Cons kv t)
  obtain key w where kv: "kv = (key, w)" by (cases kv)
  show ?case
  proof (cases "key = k")
    case same: True
    show ?thesis
    proof (cases "startswith k p")
      case True
      with Cons.prems have ne: "drop (length p) k \<noteq> f"
        using startswith_drop [of k p f] by blast
      have "map_of (dict_set acc (drop (length p) k) (decode_value loads v)) f =
            map_of (dict_set acc (drop (length p) k) (decode_value loads w)) f"
        using ne by (simp add: map_of_dict_set)
      from loop_acc_cong [OF this] True same kv show ?thesis by simp
    next
      case False
      with same kv show ?thesis by simp
    qed
  next
    case False
    with kv Cons.IH [OF Cons.prems] show ?thesis by simp
  qed
qed

lemma last_external_hash_dict_set:
  "k \<noteq> ''sync_last_external_hash'' \<Longrightarrow>
   last_external_hash loads (dict_set t k v) = last_external_hash loads t"
  using loop_dict_set_other [of k "''sync_''" "''last_external_hash''" loads t v "[]"]
  by (simp add: last_external_hash_def get_integration_fields_def dict_get_def)

lemma str_int_1: "str_int 1 = ''1''"
  by (simp add: str_int_def str_nat.simps hexdigit_def)

lemma example_store_task: "tasks (example_store t) (str_int 1) = Some t"
  by (simp add: example_store_def str_int_1)

lemma stm_data_examples:
  "stm_data example_stale_external = stm_data example_task"
  "stm_data example_stale_stm = stm_data example_task"
  "stm_data example_stale_both = stm_data example_task"
  "stm_data example_unsynced = stm_data example_task"
  by (simp_all add: stm_data_def dict_get_def example_task_def example_stale_external_def
      example_stale_stm_def example_stale_both_def example_unsynced_def)

lemmas stored_defs = no_loads_def last_stm_hash_def last_external_hash_def
  get_integration_fields_def startswith_def decode_value_def dict_get_def

lemma stored_example_task:
  "last_stm_hash no_loads example_task = JStr ''5fe8f75c119ae319''"
  "last_external_hash no_loads example_task = JStr ''c9be01beafa92c54''"
  by (simp_all add: stored_defs example_task_def)

lemma stored_example_stale_external:
  "last_stm_hash no_loads example_stale_external = JStr ''5fe8f75c119ae319''"
  "last_external_hash no_loads example_stale_external = JStr ''00806db582c9669e''"
  by (simp_all add: stored_defs example_stale_external_def)

lemma stored_example_stale_stm:
  "last_stm_hash no_loads example_stale_stm = JStr ''0f0e0d0c0b0a0908''"
  "last_external_hash no_loads example_stale_stm = JStr ''c9be01beafa92c54''"
  by (simp_all add: stored_defs example_stale_stm_def)

lemma stored_example_stale_both:
  "last_stm_hash no_loads example_stale_both = JStr ''0f0e0d0c0b0a0908''"
  "last_external_hash no_loads example_stale_both = JStr ''00806db582c9669e''"
  by (simp_all add: stored_defs example_stale_both_def)

text \<open>The branch that takes the external side over, in full.\<close>

lemma external_changed_step:
  assumes "tasks s (str_int task_id) = Some stm_task"
    and "last_stm_hash loads stm_task = JStr (compute_sync_hash (stm_data stm_task))"
    and "last_external_hash loads stm_task \<noteq> JStr (compute_sync_hash (external_data ext))"
    and "py_set (dict_get ext ''labels'' (JList [])) = Inr labels"
    and "py_set (dict_get stm_task ''tags'' (JList [])) = Inr tags"
  shows "sync_task_bidirectional loads now task_id ext s =
     (Inr \<lparr>stm_updated = True, external_updated = False,
           conflicts =
             (if py_eq (dict_get ext ''title'' JNull) (dict_get stm_task ''title'' JNull) then []
              else [''Title update requires manual intervention'']) @
             (if py_eq (dict_get ext ''status'' JNull) (dict_get stm_task ''status'' JNull) then []
              else [''Status update requires manual intervention'']) @
             (if labels = tags then []
              else [''Tags update requires manual intervention''])\<rparr>,
      s\<lparr>calls := calls s @
            [[''show'', str_int task_id, ''--json''],
             [''update'', str_int task_id,
              ''sync_last_external_hash='' @ compute_sync_hash (external_data ext),
              ''sync_last_external_sync='' @ now,
              ''sync_external_data='' @ dumps False (JDict ext)]],
        tasks := (tasks s)(str_int task_id \<mapsto>
            dict_set (dict_set (dict_set stm_task ''sync_last_external_hash''
                                  (JStr (compute_sync_hash (external_data ext))))
                        ''sync_last_external_sync'' (JStr now))
              ''sync_external_data'' (JStr (dumps False (JDict ext))))\<rparr>)"
proof -
  let ?s1 = "s\<lparr>calls := calls s @ [[''show'', str_int task_id, ''--json'']]\<rparr>"
  have t1: "tasks ?s1 (str_int task_id) = Some stm_task"
    using assms(1) by simp
  have fc: "field_conflicts (external_data ext) (stm_data stm_task) =
     Inr ((if py_eq (dict_get ext ''title'' JNull) (dict_get stm_task ''title'' JNull) then []
              else [''Title update requires manual intervention'']) @
             (if py_eq (dict_get ext ''status'' JNull) (dict_get stm_task ''status'' JNull) then []
              else [''Status update requires manual intervention'']) @
             (if labels = tags then []
              else [''Tags update requires manual intervention'']))"
    using assms(4,5)
    by (simp add: field_conflicts_def external_data_def stm_data_def dict_get_def)
  show ?thesis
    using assms(2,3)
    by (simp add: sync_task_bidirectional_def get_task_found [OF assms(1)]
        stm_changed_iff external_changed_iff update_task_fields_found [OF t1] parse_assignment_def
        fc del: dumps.simps)
qed

lemma stored_example_half_synced:
  "last_stm_hash no_loads example_half_synced = JStr ''5fe8f75c119ae319''"
  "last_external_hash no_loads example_half_synced = JStr []"
  by (simp_all add: stored_defs example_half_synced_def)

lemma stm_data_example_half_synced: "stm_data example_half_synced = stm_data example_task"
  by (simp add: stm_data_def dict_get_def example_task_def example_half_synced_def)

lemma last_n_bound:
  "length (last_n 100 (es @ [e])) \<le> 100 \<and> last_n 100 (es @ [e]) \<noteq> [] \<and>
   last (last_n 100 (es @ [e])) = e"
  by (simp add: last_n_def)

lemma appended_history_Inr:
  assumes "appended_history loads flds event = Inr h"
  shows "\<exists>es. read_history loads flds = JList es \<and> h = last_n 100 (es @ [JDict event])"
proof (cases "read_history loads flds")
  case (JList es)
  with assms have "h = (if length (es @ [JDict event]) > 100
                        then last_n 100 (es @ [JDict event]) else es @ [JDict event])"
    by (simp add: appended_history_def Let_def)
  then have "h = last_n 100 (es @ [JDict event])"
    by (simp add: last_n_def split: if_splits)
  with JList show ?thesis by simp
qed (use assms in \<open>simp_all add: appended_history_def\<close>)

lemma hexdigit_hex: "hexdigit n \<in> set ''0123456789abcdef''"
proof -
  have "n mod 16 < length ''0123456789abcdef''" by simp
  then show ?thesis
    unfolding hexdigit_def by (rule nth_mem)
qed

lemma hex32_hex: "set (hex32 w) \<subseteq> set ''0123456789abcdef''"
  unfolding hex32_def using hexdigit_hex by auto

lemma hexdigest_hex: "set (hexdigest bs) \<subseteq> set ''0123456789abcdef''"
proof
  fix x assume "x \<in> set (hexdigest bs)"
  then obtain w where "x \<in> set (hex32 w)"
    by (auto simp add: hexdigest_def split: prod.splits)
  with hex32_hex [of w] show "x \<in> set ''0123456789abcdef''"
    by blast
qed

lemma compute_sync_hash_hex: "set (compute_sync_hash d) \<subseteq> set ''0123456789abcdef''"
proof -
  have "set (compute_sync_hash d) \<subseteq> set (hexdigest (encode (dumps True (JDict d))))"
    unfolding compute_sync_hash_def Let_def by (rule set_take_subset)
  with hexdigest_hex show ?thesis by blast
qed

lemma add_sync_event_failure:
  assumes "add_sync_event loads task_id event s = (Inl e, s')"
  shows "tasks s' = tasks s"
proof (cases "tasks s (str_int task_id)")
  case None
  with assms show ?thesis
    by (auto simp add: add_sync_event_def get_task_def stm_show_def)
next
  case (Some task)
  let ?s1 = "s\<lparr>calls := calls s @ [[''show'', str_int task_id, ''--json'']]\<rparr>"
  have t1: "tasks ?s1 (str_int task_id) = Some task"
    using Some by simp
  from assms show ?thesis
    by (auto simp add: add_sync_event_def get_task_found [OF Some] update_task_fields_found [OF t1]
        split: sum.splits simp del: dumps.simps)
qed

text \<open>The digests of the example snapshots, as \<open>hashlib\<close> computes them.\<close>

lemma example_stm_hash: "compute_sync_hash (stm_data example_task) = ''5fe8f75c119ae319''"
  by code_simp

lemma example_external_hash:
  "compute_sync_hash (external_data example_external) = ''c9be01beafa92c54''"
  by code_simp

lemma example_reordered_hash:
  "compute_sync_hash (external_data example_reordered) = ''2841fe09063703a0''"
  by code_simp

section \<open>The four outcomes of \<open>sync_task_bidirectional\<close>\<close>

text \<open>
  C2: when the hash of the STM snapshot and the hash of the external snapshot both
  differ from the stored ones, the call returns both flags false and the single
  conflict entry for changes on both sides, and the store is as the read left it:
  no update command is run and no task changes.
\<close>

theorem conflict_leaves_state:
  assumes "tasks s (str_int task_id) = Some stm_task"
    and "last_stm_hash loads stm_task \<noteq> JStr (compute_sync_hash (stm_data stm_task))"
    and "last_external_hash loads stm_task \<noteq> JStr (compute_sync_hash (external_data ext))"
  shows "sync_task_bidirectional loads now task_id ext s =
     (Inr \<lparr>stm_updated = False, external_updated = False,
           conflicts = [''Both STM and external system have changes'']\<rparr>,
      s\<lparr>calls := calls s @ [[''show'', str_int task_id, ''--json'']]\<rparr>)"
  using assms
  by (simp add: sync_task_bidirectional_def get_task_found stm_changed_iff external_changed_iff)

theorem conflict_leaves_state_witness:
  "last_stm_hash no_loads example_stale_both \<noteq> JStr (compute_sync_hash (stm_data example_stale_both)) \<and>
   last_external_hash no_loads example_stale_both \<noteq> JStr (compute_sync_hash (external_data example_external)) \<and>
   sync_task_bidirectional no_loads example_now 1 example_external (example_store example_stale_both) =
     (Inr \<lparr>stm_updated = False, external_updated = False,
           conflicts = [''Both STM and external system have changes'']\<rparr>,
      \<lparr>tasks = Map.empty(''1'' \<mapsto> example_stale_both), calls = [[''show'', ''1'', ''--json'']]\<rparr>)"
proof -
  have b: "last_stm_hash no_loads example_stale_both \<noteq> JStr (compute_sync_hash (stm_data example_stale_both))"
    by (simp add: stm_data_examples example_stm_hash stored_example_stale_both)
  have c: "last_external_hash no_loads example_stale_both \<noteq> JStr (compute_sync_hash (external_data example_external))"
    by (simp add: example_external_hash stored_example_stale_both)
  show ?thesis
    using conflict_leaves_state [OF example_store_task b c, of example_now] b c
    by (simp add: example_store_def str_int_1)
qed

text \<open>
  C5: when both hashes equal the stored ones, the call returns both flags false and no
  conflict, and the store is as the read left it.
\<close>

theorem in_sync_no_mutation:
  assumes "tasks s (str_int task_id) = Some stm_task"
    and "last_stm_hash loads stm_task = JStr (compute_sync_hash (stm_data stm_task))"
    and "last_external_hash loads stm_task = JStr (compute_sync_hash (external_data ext))"
  shows "sync_task_bidirectional loads now task_id ext s =
     (Inr \<lparr>stm_updated = False, external_updated = False, conflicts = []\<rparr>,
      s\<lparr>calls := calls s @ [[''show'', str_int task_id, ''--json'']]\<rparr>)"
  using assms
  by (simp add: sync_task_bidirectional_def get_task_found stm_changed_iff external_changed_iff)

theorem in_sync_no_mutation_witness:
  "last_stm_hash no_loads example_task = JStr (compute_sync_hash (stm_data example_task)) \<and>
   last_external_hash no_loads example_task = JStr (compute_sync_hash (external_data example_external)) \<and>
   sync_task_bidirectional no_loads example_now 1 example_external (example_store example_task) =
     (Inr \<lparr>stm_updated = False, external_updated = False, conflicts = []\<rparr>,
      \<lparr>tasks = Map.empty(''1'' \<mapsto> example_task), calls = [[''show'', ''1'', ''--json'']]\<rparr>)"
proof -
  have b: "last_stm_hash no_loads example_task = JStr (compute_sync_hash (stm_data example_task))"
    by (simp add: example_stm_hash stored_example_task)
  have c: "last_external_hash no_loads example_task = JStr (compute_sync_hash (external_data example_external))"
    by (simp add: example_external_hash stored_example_task)
  show ?thesis
    using in_sync_no_mutation [OF example_store_task b c, of example_now] b c
    by (simp add: example_store_def str_int_1)
qed

text \<open>
  C4: when the hash of the STM snapshot differs from the stored one and the hash of the
  external snapshot equals the stored one, the call returns \<open>stm_updated\<close> false,
  \<open>external_updated\<close> true and no conflict, and one update command stores the new STM
  hash and the time of the sync in the task.
\<close>

theorem local_changed_result:
  assumes "tasks s (str_int task_id) = Some stm_task"
    and "last_stm_hash loads stm_task \<noteq> JStr (compute_sync_hash (stm_data stm_task))"
    and "last_external_hash loads stm_task = JStr (compute_sync_hash (external_data ext))"
  shows "sync_task_bidirectional loads now task_id ext s =
     (Inr \<lparr>stm_updated = False, external_updated = True, conflicts = []\<rparr>,
      s\<lparr>calls := calls s @
            [[''show'', str_int task_id, ''--json''],
             [''update'', str_int task_id,
              ''sync_last_stm_hash='' @ compute_sync_hash (stm_data stm_task),
              ''sync_last_external_sync='' @ now]],
        tasks := (tasks s)(str_int task_id \<mapsto>
            dict_set (dict_set stm_task ''sync_last_stm_hash''
                        (JStr (compute_sync_hash (stm_data stm_task))))
              ''sync_last_external_sync'' (JStr now))\<rparr>)"
proof -
  let ?s1 = "s\<lparr>calls := calls s @ [[''show'', str_int task_id, ''--json'']]\<rparr>"
  have t1: "tasks ?s1 (str_int task_id) = Some stm_task"
    using assms(1) by simp
  show ?thesis
    using assms(2,3)
    by (simp add: sync_task_bidirectional_def get_task_found [OF assms(1)]
        stm_changed_iff external_changed_iff update_task_fields_found [OF t1] parse_assignment_def)
qed

theorem local_changed_result_witness:
  "last_stm_hash no_loads example_stale_stm \<noteq> JStr (compute_sync_hash (stm_data example_stale_stm)) \<and>
   last_external_hash no_loads example_stale_stm = JStr (compute_sync_hash (external_data example_external)) \<and>
   sync_task_bidirectional no_loads example_now 1 example_external (example_store example_stale_stm) =
     (Inr \<lparr>stm_updated = False, external_updated = True, conflicts = []\<rparr>,
      \<lparr>tasks = Map.empty(''1'' \<mapsto>
          [(''id'', JInt 1), (''title'', JStr ''T''), (''status'', JStr ''done''),
           (''tags'', JList [JStr ''a'', JStr ''b'']),
           (''sync_last_stm_hash'', JStr ''5fe8f75c119ae319''),
           (''sync_last_external_hash'', JStr ''c9be01beafa92c54''),
           (''sync_last_external_sync'', JStr ''2025-01-19T15:00:00+00:00'')]),
       calls = [[''show'', ''1'', ''--json''],
                [''update'', ''1'', ''sync_last_stm_hash=5fe8f75c119ae319'',
                 ''sync_last_external_sync=2025-01-19T15:00:00+00:00'']]\<rparr>)"
proof -
  have b: "last_stm_hash no_loads example_stale_stm \<noteq> JStr (compute_sync_hash (stm_data example_stale_stm))"
    by (simp add: stm_data_examples example_stm_hash stored_example_stale_stm)
  have c: "last_external_hash no_loads example_stale_stm = JStr (compute_sync_hash (external_data example_external))"
    by (simp add: example_external_hash stored_example_stale_stm)
  show ?thesis
    using local_changed_result [OF example_store_task b c, of example_now,
        unfolded stm_data_examples example_stm_hash] b c
    by (simp add: example_store_def str_int_1 example_stale_stm_def example_now_def)
qed

text \<open>
  C6: in the same case the update writes the fields \<open>sync_last_stm_hash\<close> and
  \<open>sync_last_external_sync\<close> only: the one update command assigns these two, every
  other field of the task keeps its value, \<open>sync_last_external_hash\<close> among them, and
  the stored external hash read back from the task is the one read before.
\<close>

theorem local_changed_frame:
  assumes "tasks s (str_int task_id) = Some stm_task"
    and "last_stm_hash loads stm_task \<noteq> JStr (compute_sync_hash (stm_data stm_task))"
    and "last_external_hash loads stm_task = JStr (compute_sync_hash (external_data ext))"
  shows "calls (snd (sync_task_bidirectional loads now task_id ext s)) =
           calls s @
             [[''show'', str_int task_id, ''--json''],
              [''update'', str_int task_id,
               ''sync_last_stm_hash='' @ compute_sync_hash (stm_data stm_task),
               ''sync_last_external_sync='' @ now]] \<and>
         (\<exists>t'. tasks (snd (sync_task_bidirectional loads now task_id ext s)) (str_int task_id) = Some t' \<and>
           map_of t' ''sync_last_external_hash'' = map_of stm_task ''sync_last_external_hash'' \<and>
           last_external_hash loads t' = last_external_hash loads stm_task \<and>
           (\<forall>k. k \<noteq> ''sync_last_stm_hash'' \<and> k \<noteq> ''sync_last_external_sync'' \<longrightarrow>
                map_of t' k = map_of stm_task k))"
proof -
  let ?s1 = "s\<lparr>calls := calls s @ [[''show'', str_int task_id, ''--json'']]\<rparr>"
  have t1: "tasks ?s1 (str_int task_id) = Some stm_task"
    using assms(1) by simp
  let ?t' = "dict_set (dict_set stm_task ''sync_last_stm_hash''
                        (JStr (compute_sync_hash (stm_data stm_task))))
              ''sync_last_external_sync'' (JStr now)"
  have "calls (snd (sync_task_bidirectional loads now task_id ext s)) =
           calls s @
             [[''show'', str_int task_id, ''--json''],
              [''update'', str_int task_id,
               ''sync_last_stm_hash='' @ compute_sync_hash (stm_data stm_task),
               ''sync_last_external_sync='' @ now]]"
    using assms(2,3)
    by (simp add: sync_task_bidirectional_def get_task_found [OF assms(1)]
        stm_changed_iff external_changed_iff update_task_fields_found [OF t1])
  moreover have "tasks (snd (sync_task_bidirectional loads now task_id ext s)) (str_int task_id) = Some ?t'"
    using assms(2,3)
    by (simp add: sync_task_bidirectional_def get_task_found [OF assms(1)]
        stm_changed_iff external_changed_iff update_task_fields_found [OF t1] parse_assignment_def)
  moreover have "map_of ?t' k = map_of stm_task k"
    if "k \<noteq> ''sync_last_stm_hash'' \<and> k \<noteq> ''sync_last_external_sync''" for k
    using that by (simp add: map_of_dict_set)
  moreover have "last_external_hash loads ?t' = last_external_hash loads stm_task"
    by (simp add: last_external_hash_dict_set)
  ultimately show ?thesis
    by (simp add: map_of_dict_set)
qed

theorem local_changed_frame_witness:
  "last_stm_hash no_loads example_stale_stm \<noteq> JStr (compute_sync_hash (stm_data example_stale_stm)) \<and>
   last_external_hash no_loads example_stale_stm = JStr (compute_sync_hash (external_data example_external)) \<and>
   calls (snd (sync_task_bidirectional no_loads example_now 1 example_external
                 (example_store example_stale_stm))) =
     [[''show'', ''1'', ''--json''],
      [''update'', ''1'', ''sync_last_stm_hash=5fe8f75c119ae319'',
       ''sync_last_external_sync=2025-01-19T15:00:00+00:00'']] \<and>
   (\<exists>t'. tasks (snd (sync_task_bidirectional no_loads example_now 1 example_external
                       (example_store example_stale_stm))) ''1'' = Some t' \<and>
         map_of t' ''sync_last_external_hash'' = Some (JStr ''c9be01beafa92c54'') \<and>
         last_external_hash no_loads t' = JStr ''c9be01beafa92c54'')"
proof -
  have b: "last_stm_hash no_loads example_stale_stm \<noteq> JStr (compute_sync_hash (stm_data example_stale_stm))"
    by (simp add: stm_data_examples example_stm_hash stored_example_stale_stm)
  have c: "last_external_hash no_loads example_stale_stm = JStr (compute_sync_hash (external_data example_external))"
    by (simp add: example_external_hash stored_example_stale_stm)
  have d: "map_of example_stale_stm ''sync_last_external_hash'' = Some (JStr ''c9be01beafa92c54'')"
    by (simp add: example_stale_stm_def)
  show ?thesis
    using local_changed_frame [OF example_store_task b c, of example_now,
        unfolded stm_data_examples example_stm_hash stored_example_stale_stm d] b c
    by (auto simp add: example_store_def str_int_1 example_now_def)
qed

text \<open>
  C8: for a task that has never been synced, with neither \<open>sync_last_stm_hash\<close> nor
  \<open>sync_last_external_hash\<close> among its fields, both stored hashes default to the empty
  string, both digests are 16 characters long, so the call reports the conflict of
  changes on both sides, with both flags false, and writes nothing: the stored hashes
  are not initialised.
\<close>

theorem first_sync_conflict:
  assumes "tasks s (str_int task_id) = Some stm_task"
    and "map_of stm_task ''sync_last_stm_hash'' = None"
    and "map_of stm_task ''sync_last_external_hash'' = None"
  shows "length (compute_sync_hash (stm_data stm_task)) = 16 \<and>
     set (compute_sync_hash (stm_data stm_task)) \<subseteq> set ''0123456789abcdef'' \<and>
     length (compute_sync_hash (external_data ext)) = 16 \<and>
     set (compute_sync_hash (external_data ext)) \<subseteq> set ''0123456789abcdef'' \<and>
     last_stm_hash loads stm_task = JStr [] \<and>
     last_external_hash loads stm_task = JStr [] \<and>
     sync_task_bidirectional loads now task_id ext s =
       (Inr \<lparr>stm_updated = False, external_updated = False,
             conflicts = [''Both STM and external system have changes'']\<rparr>,
        s\<lparr>calls := calls s @ [[''show'', str_int task_id, ''--json'']]\<rparr>)"
proof -
  have "sync_task_bidirectional loads now task_id ext s =
       (Inr \<lparr>stm_updated = False, external_updated = False,
             conflicts = [''Both STM and external system have changes'']\<rparr>,
        s\<lparr>calls := calls s @ [[''show'', str_int task_id, ''--json'']]\<rparr>)"
    using assms
    by (simp add: sync_task_bidirectional_def get_task_found stm_changed_iff external_changed_iff
        last_stm_hash_absent last_external_hash_absent
        compute_sync_hash_nonempty [THEN not_sym])
  then show ?thesis
    by (intro conjI length_compute_sync_hash compute_sync_hash_hex
        last_stm_hash_absent [OF assms(2)] last_external_hash_absent [OF assms(3)])
qed

theorem first_sync_conflict_witness:
  "map_of example_unsynced ''sync_last_stm_hash'' = None \<and>
   map_of example_unsynced ''sync_last_external_hash'' = None \<and>
   sync_task_bidirectional no_loads example_now 1 example_external (example_store example_unsynced) =
     (Inr \<lparr>stm_updated = False, external_updated = False,
           conflicts = [''Both STM and external system have changes'']\<rparr>,
      \<lparr>tasks = Map.empty(''1'' \<mapsto> example_unsynced), calls = [[''show'', ''1'', ''--json'']]\<rparr>)"
proof -
  have b: "map_of example_unsynced ''sync_last_stm_hash'' = None"
    by (simp add: example_unsynced_def)
  have c: "map_of example_unsynced ''sync_last_external_hash'' = None"
    by (simp add: example_unsynced_def)
  show ?thesis
    using first_sync_conflict [OF example_store_task b c, of example_external no_loads example_now] b c
    by (simp add: example_store_def str_int_1)
qed

text \<open>
  C1, as the code has it: when the hash of the STM snapshot equals the stored one and
  the hash of the external snapshot differs from it, and \<open>set\<close> accepts the labels and
  the tags, the call returns \<open>stm_updated\<close> true and \<open>external_updated\<close> false; the
  conflicts are, in this order, one entry for the title, the status and the tags,
  each present only when the two sides differ there; one update command stores the new
  external hash, the time of the sync and a copy of the external data in the task.
\<close>

theorem external_changed_result:
  assumes "tasks s (str_int task_id) = Some stm_task"
    and "last_stm_hash loads stm_task = JStr (compute_sync_hash (stm_data stm_task))"
    and "last_external_hash loads stm_task \<noteq> JStr (compute_sync_hash (external_data ext))"
    and "py_set (dict_get ext ''labels'' (JList [])) = Inr labels"
    and "py_set (dict_get stm_task ''tags'' (JList [])) = Inr tags"
  shows "sync_task_bidirectional loads now task_id ext s =
     (Inr \<lparr>stm_updated = True, external_updated = False,
           conflicts =
             (if py_eq (dict_get ext ''title'' JNull) (dict_get stm_task ''title'' JNull) then []
              else [''Title update requires manual intervention'']) @
             (if py_eq (dict_get ext ''status'' JNull) (dict_get stm_task ''status'' JNull) then []
              else [''Status update requires manual intervention'']) @
             (if labels = tags then []
              else [''Tags update requires manual intervention''])\<rparr>,
      s\<lparr>calls := calls s @
            [[''show'', str_int task_id, ''--json''],
             [''update'', str_int task_id,
              ''sync_last_external_hash='' @ compute_sync_hash (external_data ext),
              ''sync_last_external_sync='' @ now,
              ''sync_external_data='' @ dumps False (JDict ext)]],
        tasks := (tasks s)(str_int task_id \<mapsto>
            dict_set (dict_set (dict_set stm_task ''sync_last_external_hash''
                                  (JStr (compute_sync_hash (external_data ext))))
                        ''sync_last_external_sync'' (JStr now))
              ''sync_external_data'' (JStr (dumps False (JDict ext))))\<rparr>)"
  using assms by (rule external_changed_step)

theorem external_changed_result_witness:
  "last_stm_hash no_loads example_half_synced = JStr (compute_sync_hash (stm_data example_half_synced)) \<and>
   last_external_hash no_loads example_half_synced \<noteq> JStr (compute_sync_hash (external_data example_renamed)) \<and>
   py_set (dict_get example_renamed ''labels'' (JList [])) = Inr {JStr ''a''} \<and>
   py_set (dict_get example_half_synced ''tags'' (JList [])) = Inr {JStr ''a'', JStr ''b''} \<and>
   fst (sync_task_bidirectional no_loads example_now 1 example_renamed (example_store example_half_synced)) =
     Inr \<lparr>stm_updated = True, external_updated = False,
          conflicts = [''Title update requires manual intervention'',
                       ''Tags update requires manual intervention'']\<rparr> \<and>
   calls (snd (sync_task_bidirectional no_loads example_now 1 example_renamed
                 (example_store example_half_synced))) =
     [[''show'', ''1'', ''--json''],
      [''update'', ''1'',
       ''sync_last_external_hash='' @ compute_sync_hash (external_data example_renamed),
       ''sync_last_external_sync=2025-01-19T15:00:00+00:00'',
       ''sync_external_data='' @ dumps False (JDict example_renamed)]]"
proof -
  have b: "last_stm_hash no_loads example_half_synced = JStr (compute_sync_hash (stm_data example_half_synced))"
    by (simp add: stm_data_example_half_synced example_stm_hash stored_example_half_synced)
  have c: "last_external_hash no_loads example_half_synced \<noteq> JStr (compute_sync_hash (external_data example_renamed))"
    by (simp add: stored_example_half_synced compute_sync_hash_nonempty [THEN not_sym])
  have d: "py_set (dict_get example_renamed ''labels'' (JList [])) = Inr {JStr ''a''}"
    by (simp add: example_renamed_def dict_get_def)
  have e: "py_set (dict_get example_half_synced ''tags'' (JList [])) = Inr {JStr ''a'', JStr ''b''}"
    by (simp add: example_half_synced_def dict_get_def)
  have f: "\<not> py_eq (dict_get example_renamed ''title'' JNull) (dict_get example_half_synced ''title'' JNull)"
    by (simp add: example_renamed_def example_half_synced_def dict_get_def py_eq_def)
  have g: "py_eq (dict_get example_renamed ''status'' JNull) (dict_get example_half_synced ''status'' JNull)"
    by (simp add: example_renamed_def example_half_synced_def dict_get_def py_eq_def)
  have h: "{JStr ''a''} \<noteq> {JStr ''a'', JStr ''b''}"
    by auto
  show ?thesis
    using external_changed_result [OF example_store_task b c d e, of example_now] b c d e f g h
    by (simp add: example_store_def str_int_1 example_now_def del: dumps.simps)
qed

text \<open>
  As first written, with \<open>stm_updated\<close> false and at least one conflict, the statement
  fails at the task whose stored external hash is an older one while its title, status
  and tags equal the external ones: \<open>stm_updated\<close> is true and there is no conflict.
\<close>

theorem external_changed_result_counterexample:
  "last_stm_hash no_loads example_stale_external =
     JStr (compute_sync_hash (stm_data example_stale_external)) \<and>
   last_external_hash no_loads example_stale_external \<noteq>
     JStr (compute_sync_hash (external_data example_external)) \<and>
   fst (sync_task_bidirectional no_loads example_now 1 example_external
          (example_store example_stale_external)) =
     Inr \<lparr>stm_updated = True, external_updated = False, conflicts = []\<rparr>"
proof -
  have b: "last_stm_hash no_loads example_stale_external =
      JStr (compute_sync_hash (stm_data example_stale_external))"
    by (simp add: stm_data_examples example_stm_hash stored_example_stale_external)
  have c: "last_external_hash no_loads example_stale_external \<noteq>
      JStr (compute_sync_hash (external_data example_external))"
    by (simp add: example_external_hash stored_example_stale_external)
  have d: "py_set (dict_get example_external ''labels'' (JList [])) = Inr {JStr ''a'', JStr ''b''}"
    by (simp add: example_external_def dict_get_def)
  have e: "py_set (dict_get example_stale_external ''tags'' (JList [])) = Inr {JStr ''a'', JStr ''b''}"
    by (simp add: example_stale_external_def dict_get_def)
  have f: "py_eq (dict_get example_external ''title'' JNull) (dict_get example_stale_external ''title'' JNull)"
    by (simp add: example_external_def example_stale_external_def dict_get_def py_eq_def)
  have g: "py_eq (dict_get example_external ''status'' JNull) (dict_get example_stale_external ''status'' JNull)"
    by (simp add: example_external_def example_stale_external_def dict_get_def py_eq_def)
  show ?thesis
    using external_changed_step [OF example_store_task b c d e, of example_now] b c f g
    by simp
qed

text \<open>
  C9: the branch that takes the external side over can return no conflict: when the
  titles are equal, the statuses are equal and the labels and the tags are equal as
  sets, the conflicts are empty, \<open>stm_updated\<close> is true and the update command stores
  the new external hash. The labels of the example are the tags in another order, and
  the digest of the external snapshot differs from the stored one for that reason
  alone.
\<close>

theorem external_changed_no_conflict:
  assumes "tasks s (str_int task_id) = Some stm_task"
    and "last_stm_hash loads stm_task = JStr (compute_sync_hash (stm_data stm_task))"
    and "last_external_hash loads stm_task \<noteq> JStr (compute_sync_hash (external_data ext))"
    and "py_eq (dict_get ext ''title'' JNull) (dict_get stm_task ''title'' JNull)"
    and "py_eq (dict_get ext ''status'' JNull) (dict_get stm_task ''status'' JNull)"
    and "py_set (dict_get ext ''labels'' (JList [])) = Inr elems"
    and "py_set (dict_get stm_task ''tags'' (JList [])) = Inr elems"
  shows "sync_task_bidirectional loads now task_id ext s =
     (Inr \<lparr>stm_updated = True, external_updated = False, conflicts = []\<rparr>,
      s\<lparr>calls := calls s @
            [[''show'', str_int task_id, ''--json''],
             [''update'', str_int task_id,
              ''sync_last_external_hash='' @ compute_sync_hash (external_data ext),
              ''sync_last_external_sync='' @ now,
              ''sync_external_data='' @ dumps False (JDict ext)]],
        tasks := (tasks s)(str_int task_id \<mapsto>
            dict_set (dict_set (dict_set stm_task ''sync_last_external_hash''
                                  (JStr (compute_sync_hash (external_data ext))))
                        ''sync_last_external_sync'' (JStr now))
              ''sync_external_data'' (JStr (dumps False (JDict ext))))\<rparr>)"
  using external_changed_step [OF assms(1,2,3,6,7), of now] assms(4,5) by simp

theorem external_changed_no_conflict_witness:
  "last_stm_hash no_loads example_task = JStr (compute_sync_hash (stm_data example_task)) \<and>
   last_external_hash no_loads example_task = JStr (compute_sync_hash (external_data example_external)) \<and>
   last_external_hash no_loads example_task \<noteq> JStr (compute_sync_hash (external_data example_reordered)) \<and>
   py_eq (dict_get example_reordered ''title'' JNull) (dict_get example_task ''title'' JNull) \<and>
   py_eq (dict_get example_reordered ''status'' JNull) (dict_get example_task ''status'' JNull) \<and>
   py_set (dict_get example_reordered ''labels'' (JList [])) = Inr {JStr ''a'', JStr ''b''} \<and>
   py_set (dict_get example_task ''tags'' (JList [])) = Inr {JStr ''a'', JStr ''b''} \<and>
   fst (sync_task_bidirectional no_loads example_now 1 example_reordered (example_store example_task)) =
     Inr \<lparr>stm_updated = True, external_updated = False, conflicts = []\<rparr> \<and>
   calls (snd (sync_task_bidirectional no_loads example_now 1 example_reordered
                 (example_store example_task))) =
     [[''show'', ''1'', ''--json''],
      [''update'', ''1'', ''sync_last_external_hash=2841fe09063703a0'',
       ''sync_last_external_sync=2025-01-19T15:00:00+00:00'',
       ''sync_external_data='' @ dumps False (JDict example_reordered)]]"
proof -
  have b: "last_stm_hash no_loads example_task = JStr (compute_sync_hash (stm_data example_task))"
    by (simp add: example_stm_hash stored_example_task)
  have b': "last_external_hash no_loads example_task = JStr (compute_sync_hash (external_data example_external))"
    by (simp add: example_external_hash stored_example_task)
  have c: "last_external_hash no_loads example_task \<noteq> JStr (compute_sync_hash (external_data example_reordered))"
    by (simp add: example_reordered_hash stored_example_task)
  have d: "py_set (dict_get example_reordered ''labels'' (JList [])) = Inr {JStr ''a'', JStr ''b''}"
    by (auto simp add: example_reordered_def dict_get_def)
  have e: "py_set (dict_get example_task ''tags'' (JList [])) = Inr {JStr ''a'', JStr ''b''}"
    by (simp add: example_task_def dict_get_def)
  have f: "py_eq (dict_get example_reordered ''title'' JNull) (dict_get example_task ''title'' JNull)"
    by (simp add: example_reordered_def example_task_def dict_get_def py_eq_def)
  have g: "py_eq (dict_get example_reordered ''status'' JNull) (dict_get example_task ''status'' JNull)"
    by (simp add: example_reordered_def example_task_def dict_get_def py_eq_def)
  show ?thesis
    using external_changed_no_conflict [OF example_store_task b c f g d e, of example_now,
        unfolded example_reordered_hash] b b' c d e f g
    by (simp add: example_store_def str_int_1 example_now_def del: dumps.simps)
qed

section \<open>The hash and the classifier as functions\<close>

text \<open>
  C3: the hash does not depend on the insertion order of the keys: two dictionaries
  (their keys unique, as in Python) that hold the same key-value pairs have the same
  digest.
\<close>

theorem hash_order_independent:
  assumes "distinct (map fst a)" and "distinct (map fst b)" and "set a = set b"
  shows "compute_sync_hash a = compute_sync_hash b"
  using sort_key_fst_unique [OF assms] by (simp add: compute_sync_hash_def)

theorem hash_order_independent_witness:
  "distinct (map fst [(''title'', JStr ''T''), (''status'', JStr ''done''), (''tags'', JList [])]) \<and>
   distinct (map fst [(''tags'', JList []), (''title'', JStr ''T''), (''status'', JStr ''done'')]) \<and>
   set [(''title'', JStr ''T''), (''status'', JStr ''done''), (''tags'', JList [])] =
   set [(''tags'', JList []), (''title'', JStr ''T''), (''status'', JStr ''done'')] \<and>
   compute_sync_hash [(''title'', JStr ''T''), (''status'', JStr ''done''), (''tags'', JList [])] =
   compute_sync_hash [(''tags'', JList []), (''title'', JStr ''T''), (''status'', JStr ''done'')]"
proof -
  let ?a = "[(''title'', JStr ''T''), (''status'', JStr ''done''), (''tags'', JList [])]"
  let ?b = "[(''tags'', JList []), (''title'', JStr ''T''), (''status'', JStr ''done'')]"
  have a: "distinct (map fst ?a)" by simp
  have b: "distinct (map fst ?b)" by simp
  have c: "set ?a = set ?b" by auto
  show ?thesis
    using hash_order_independent [OF a b c] a b c by blast
qed

text \<open>
  C7: the returned SyncResult is a function of the stored task and the external data:
  two calls on stores that hold the same tasks return the same result, whatever the
  clock says and whatever commands were run before.
\<close>

theorem result_deterministic:
  assumes "tasks s = tasks s'"
  shows "fst (sync_task_bidirectional loads now task_id ext s) =
         fst (sync_task_bidirectional loads now' task_id ext s')"
proof (cases "tasks s (str_int task_id)")
  case None
  with assms show ?thesis
    by (simp add: sync_task_bidirectional_def get_task_def stm_show_def)
next
  case (Some t)
  let ?s1 = "s\<lparr>calls := calls s @ [[''show'', str_int task_id, ''--json'']]\<rparr>"
  let ?s1' = "s'\<lparr>calls := calls s' @ [[''show'', str_int task_id, ''--json'']]\<rparr>"
  from Some assms have Some': "tasks s' (str_int task_id) = Some t" by simp
  have t1: "tasks ?s1 (str_int task_id) = Some t"
    using Some by simp
  have t1': "tasks ?s1' (str_int task_id) = Some t"
    using Some' by simp
  show ?thesis
    by (simp add: sync_task_bidirectional_def get_task_found [OF Some] get_task_found [OF Some']
        update_task_fields_found [OF t1] update_task_fields_found [OF t1'] Let_def
        split: sum.splits)
qed

theorem result_deterministic_witness:
  "tasks (example_store example_task) =
   tasks \<lparr>tasks = Map.empty(''1'' \<mapsto> example_task), calls = [[''list'', ''--json'']]\<rparr> \<and>
   fst (sync_task_bidirectional no_loads example_now 1 example_external (example_store example_task)) =
   fst (sync_task_bidirectional no_loads ''2025-01-20T09:30:00+00:00'' 1 example_external
          \<lparr>tasks = Map.empty(''1'' \<mapsto> example_task), calls = [[''list'', ''--json'']]\<rparr>)"
proof -
  have a: "tasks (example_store example_task) =
     tasks \<lparr>tasks = Map.empty(''1'' \<mapsto> example_task), calls = [[''list'', ''--json'']]\<rparr>"
    by (simp add: example_store_def)
  show ?thesis
    using result_deterministic [OF a] a by blast
qed

section \<open>The sync history\<close>

text \<open>
  C10: a call of \<open>add_sync_event\<close> that returns has written, with one update command,
  the last 100 entries of the history it read with the new event appended: the list
  written holds at most 100 events and the new event is its last entry.
\<close>

theorem sync_history_bounded:
  assumes "add_sync_event loads task_id event s = (Inr (), s')"
  shows "\<exists>task es h.
           tasks s (str_int task_id) = Some task \<and>
           read_history loads (get_integration_fields ''pms'' loads task) = JList es \<and>
           h = last_n 100 (es @ [JDict event]) \<and>
           length h \<le> 100 \<and> h \<noteq> [] \<and> last h = JDict event \<and>
           s' = s\<lparr>calls := calls s @
                      [[''show'', str_int task_id, ''--json''],
                       [''update'', str_int task_id,
                        ''pms_sync_history='' @ dumps False (JList h)]],
                  tasks := (tasks s)(str_int task_id \<mapsto>
                      dict_set task ''pms_sync_history'' (JStr (dumps False (JList h))))\<rparr>"
proof (cases "tasks s (str_int task_id)")
  case None
  with assms show ?thesis
    by (simp add: add_sync_event_def get_task_def stm_show_def)
next
  case (Some task)
  let ?s1 = "s\<lparr>calls := calls s @ [[''show'', str_int task_id, ''--json'']]\<rparr>"
  have t1: "tasks ?s1 (str_int task_id) = Some task"
    using Some by simp
  show ?thesis
  proof (cases "appended_history loads (get_integration_fields ''pms'' loads task) event")
    case (Inl e)
    with assms Some show ?thesis
      by (simp add: add_sync_event_def get_task_found [OF Some])
  next
    case (Inr h)
    from appended_history_Inr [OF Inr] obtain es
      where es: "read_history loads (get_integration_fields ''pms'' loads task) = JList es"
        and h: "h = last_n 100 (es @ [JDict event])"
      by blast
    have "s' = s\<lparr>calls := calls s @
                      [[''show'', str_int task_id, ''--json''],
                       [''update'', str_int task_id,
                        ''pms_sync_history='' @ dumps False (JList h)]],
                  tasks := (tasks s)(str_int task_id \<mapsto>
                      dict_set task ''pms_sync_history'' (JStr (dumps False (JList h))))\<rparr>"
      using assms Inr
      by (simp add: add_sync_event_def get_task_found [OF Some] update_task_fields_found [OF t1]
          parse_assignment_def del: dumps.simps)
    with Some es h last_n_bound [of es "JDict event"] show ?thesis
      by blast
  qed
qed

theorem sync_history_bounded_witness:
  "add_sync_event no_loads 1 example_event (example_store example_full_history) =
     (Inr (),
      \<lparr>tasks = Map.empty(''1'' \<mapsto>
          dict_set example_full_history ''pms_sync_history''
            (JStr (dumps False (JList (replicate 99 (JDict [(''action'', JStr ''assigned'')]) @
                                       [JDict example_event]))))),
       calls = [[''show'', ''1'', ''--json''],
                [''update'', ''1'',
                 ''pms_sync_history='' @
                 dumps False (JList (replicate 99 (JDict [(''action'', JStr ''assigned'')]) @
                                     [JDict example_event]))]]\<rparr>) \<and>
   length (replicate 99 (JDict [(''action'', JStr ''assigned'')]) @ [JDict example_event]) = 100 \<and>
   (\<exists>task es h.
      tasks (example_store example_full_history) (str_int 1) = Some task \<and>
      read_history no_loads (get_integration_fields ''pms'' no_loads task) = JList es \<and>
      h = last_n 100 (es @ [JDict example_event]) \<and>
      length h \<le> 100 \<and> h \<noteq> [] \<and> last h = JDict example_event)"
proof -
  let ?old = "replicate 100 (JDict [(''action'', JStr ''assigned'')])"
  let ?new = "replicate 99 (JDict [(''action'', JStr ''assigned'')]) @ [JDict example_event]"
  have r: "read_history no_loads (get_integration_fields ''pms'' no_loads example_full_history) = JList ?old"
    by (simp add: read_history_def get_integration_fields_def example_full_history_def
        startswith_def decode_value_def dict_get_def)
  have "?old = JDict [(''action'', JStr ''assigned'')] # replicate 99 (JDict [(''action'', JStr ''assigned'')])"
    by (simp add: replicate_Suc [symmetric] del: replicate_Suc)
  then have l: "last_n 100 (?old @ [JDict example_event]) = ?new"
    by (simp add: last_n_def)
  have ah: "appended_history no_loads (get_integration_fields ''pms'' no_loads example_full_history)
         example_event = Inr ?new"
    using l by (simp add: appended_history_def r Let_def)
  let ?s1 = "(example_store example_full_history)\<lparr>calls := calls (example_store example_full_history) @ [[''show'', str_int 1, ''--json'']]\<rparr>"
  have t1: "tasks ?s1 (str_int 1) = Some example_full_history"
    by (simp add: example_store_task)
  have a0: "add_sync_event no_loads 1 example_event (example_store example_full_history) =
     (Inr (),
      (example_store example_full_history)
        \<lparr>calls := calls (example_store example_full_history) @
            [[''show'', str_int 1, ''--json''],
             [''update'', str_int 1, ''pms_sync_history='' @ dumps False (JList ?new)]],
         tasks := (tasks (example_store example_full_history))(str_int 1 \<mapsto>
            dict_set example_full_history ''pms_sync_history'' (JStr (dumps False (JList ?new))))\<rparr>)"
    by (simp add: add_sync_event_def get_task_found [OF example_store_task] ah
        update_task_fields_found [OF t1] parse_assignment_def del: dumps.simps)
  have a: "add_sync_event no_loads 1 example_event (example_store example_full_history) =
     (Inr (),
      \<lparr>tasks = Map.empty(''1'' \<mapsto>
          dict_set example_full_history ''pms_sync_history'' (JStr (dumps False (JList ?new)))),
       calls = [[''show'', ''1'', ''--json''],
                [''update'', ''1'', ''pms_sync_history='' @ dumps False (JList ?new)]]\<rparr>)"
    unfolding a0 by (simp add: example_store_def str_int_1 del: dumps.simps)
  show ?thesis
    using sync_history_bounded [OF a] a by auto
qed

end
